theory Spec2Isabelle
  imports Complex_Main
begin

section \<open>Data model\<close>

text \<open>
  The sale transaction engine of the pharmacy application: \<^verbatim>\<open>services/sale_service.py\<close>,
  \<^verbatim>\<open>services/stock_service.py\<close>, \<^verbatim>\<open>services/loyalty_service.py\<close> and the repository
  methods they call. The SQLite tables are an explicit store that every operation takes
  and returns. Python \<^verbatim>\<open>int\<close> is \<^typ>\<open>int\<close>. Python \<^verbatim>\<open>float\<close> amounts are
  modelled as exact rationals: the model computes what the source's arithmetic computes
  whenever the floating-point operations involved are exact. The sales evaluated below use
  whole prices, or the price 0.25 with the factor 0.5, for which the source's double
  arithmetic gives the same amounts as the model.
  Rows are taken as the model classes accept them on loading (the constructors of
  \<^verbatim>\<open>Medicament\<close>, \<^verbatim>\<open>Client\<close> and \<^verbatim>\<open>LoyaltyTier\<close> reject other rows), and
  storage failures of SQLite itself are outside the model.
  The \<^verbatim>\<open>(bool, str)\<close> results keep the flag; the message text is a constructor of
  \<open>message\<close>, with the numbers the text interpolates as arguments.
\<close>

datatype message =
    QuantityMustBePositive
  | MedicamentNotFound
  | MedicamentUnavailable
  | InsufficientStock int
  | AddedToCart
  | RemovedFromCart
  | ItemNotInCart
  | QuantityUpdated
  | ClientNotFound
  | ClientInactive
  | ClientAttached
  | StockAdded int
  | StockRemoved int
  | StockUpdateError
  | NegativeQuantity
  | StockAlreadyAtValue
  | StockAdjusted int
  | AdjustError
  | EmptyCart
  | NotLoggedIn
  | InsufficientStockFor nat
  | SaleRecorded
  | ValidationFailed
  | SaleNotFound
  | AlreadyCancelled
  | SaleCancelled
  | CancelError
  | PointsMustBePositive
  | InsufficientPoints int
  | PointsUsed int
  | PointsUseError
  | PointsAdded int int
  | PointsAddError
  | NoPointsEarned

datatype reason = InitialStock | Restock | ManualExit | InventoryAdjustment | SaleReason
  | CancelReason "nat \<times> nat"

datatype movement_type = Entry | Exit | Adjustment

datatype sale_status = Completed | Cancelled

record medicament =
  med_id :: nat
  selling_price :: rat
  quantity_in_stock :: int
  med_is_active :: bool

record client =
  client_ident :: nat
  loyalty_points :: int
  total_spent :: rat
  client_is_active :: bool

record loyalty_tier =
  min_points :: int
  tier_discount_percentage :: rat
  tier_is_active :: bool

record cart_item =
  medicament :: medicament
  quantity :: int
  unit_price :: rat

record cart =
  items :: "cart_item list"
  cart_client :: "client option"

record sale_line =
  line_medicament_id :: nat
  line_quantity :: int
  line_unit_price :: rat
  line_total_amount :: rat

record sale =
  sale_number :: "nat \<times> nat"
  user_id :: nat
  client_id :: "nat option"
  subtotal :: rat
  discount_percentage :: rat
  discount_amount :: rat
  total :: rat
  loyalty_points_earned :: int
  loyalty_points_used :: int
  status :: sale_status
  lines :: "sale_line list"

record stock_movement =
  mv_medicament_id :: nat
  mv_user_id :: nat
  mv_type :: movement_type
  mv_quantity :: int
  mv_reference_id :: "nat option"
  mv_reason :: reason

text \<open>
  The store: one field per table. Sales are kept in insertion order with their row id,
  each with its lines. A sale number \<^verbatim>\<open>VNT-YYYYMMDD-XXX\<close> is the pair (day, sequence).
\<close>

record db =
  medicaments :: "nat \<rightharpoonup> medicament"
  clients :: "nat \<rightharpoonup> client"
  tiers :: "loyalty_tier list"
  sales :: "(nat \<times> sale) list"
  movements :: "stock_movement list"

text \<open>
  The ambient globals the services read: \<^verbatim>\<open>AuthService._current_user\<close> (the id of the
  logged-in user, if any), \<^verbatim>\<open>LOYALTY_CONFIG["points_per_unit"]\<close> and \<^verbatim>\<open>date.today()\<close>.
\<close>

record ambient =
  current_user :: "nat option"
  points_per_unit :: rat
  today :: nat

section \<open>Rounding\<close>

text \<open>
  \<^verbatim>\<open>FormatUtils.round_currency\<close>: \<^verbatim>\<open>Decimal.quantize(Decimal('0.01'), ROUND_HALF_UP)\<close>,
  nearest hundredth with ties away from zero.
\<close>

definition round_currency :: "rat \<Rightarrow> rat" where
  "round_currency amount =
     (if 0 \<le> amount then of_int \<lfloor>amount * 100 + 1 / 2\<rfloor> / 100
      else - (of_int \<lfloor>- amount * 100 + 1 / 2\<rfloor> / 100))"

text \<open>
  Python's built-in \<^verbatim>\<open>round(x, 2)\<close>, which \<^verbatim>\<open>LoyaltyService.apply_discount\<close> calls:
  nearest hundredth with ties to the even hundredth.
\<close>

definition py_round2 :: "rat \<Rightarrow> rat" where
  "py_round2 x =
     (let y = x * 100; f = \<lfloor>y\<rfloor>; d = y - of_int f
      in of_int (if d < 1 / 2 then f
                 else if 1 / 2 < d then f + 1
                 else if even f then f else f + 1) / 100)"

section \<open>Repositories\<close>

text \<open>\<^verbatim>\<open>MedicamentRepository.get_by_id\<close>: the row of that id, as an object carrying the id.\<close>

definition medicament_get_by_id :: "db \<Rightarrow> nat \<Rightarrow> medicament option" where
  "medicament_get_by_id d medicament_id =
     map_option (\<lambda>m. m\<lparr>med_id := medicament_id\<rparr>) (medicaments d medicament_id)"

text \<open>
  \<^verbatim>\<open>MedicamentRepository.update_stock\<close>:
  \<^verbatim>\<open>UPDATE medicaments SET quantity_in_stock = quantity_in_stock + ? WHERE id = ? AND (quantity_in_stock + ?) >= 0\<close>,
  returning \<^verbatim>\<open>rowcount > 0\<close>.
\<close>

definition update_stock :: "db \<Rightarrow> nat \<Rightarrow> int \<Rightarrow> bool \<times> db" where
  "update_stock d medicament_id quantity_change =
     (case medicaments d medicament_id of
        None \<Rightarrow> (False, d)
      | Some m \<Rightarrow>
          if 0 \<le> quantity_in_stock m + quantity_change
          then (True, d\<lparr>medicaments := (medicaments d)(medicament_id \<mapsto>
                   m\<lparr>quantity_in_stock := quantity_in_stock m + quantity_change\<rparr>)\<rparr>)
          else (False, d))"

text \<open>\<^verbatim>\<open>MedicamentRepository.update\<close>, as \<^verbatim>\<open>StockService.adjust_stock\<close> uses it: the row
  of the object's id is overwritten with the object's fields.\<close>

definition medicament_update :: "db \<Rightarrow> medicament \<Rightarrow> bool \<times> db" where
  "medicament_update d m =
     (case medicaments d (med_id m) of
        None \<Rightarrow> (False, d)
      | Some _ \<Rightarrow> (True, d\<lparr>medicaments := (medicaments d)(med_id m \<mapsto> m)\<rparr>))"

definition client_get_by_id :: "db \<Rightarrow> nat \<Rightarrow> client option" where
  "client_get_by_id d cid = map_option (\<lambda>c. c\<lparr>client_ident := cid\<rparr>) (clients d cid)"

text \<open>
  \<^verbatim>\<open>ClientRepository.update_loyalty_points\<close>:
  \<^verbatim>\<open>UPDATE clients SET loyalty_points = loyalty_points + ? WHERE id = ? AND (loyalty_points + ?) >= 0\<close>.
\<close>

definition update_loyalty_points :: "db \<Rightarrow> nat \<Rightarrow> int \<Rightarrow> bool \<times> db" where
  "update_loyalty_points d cid points_change =
     (case clients d cid of
        None \<Rightarrow> (False, d)
      | Some c \<Rightarrow>
          if 0 \<le> loyalty_points c + points_change
          then (True, d\<lparr>clients := (clients d)(cid \<mapsto>
                   c\<lparr>loyalty_points := loyalty_points c + points_change\<rparr>)\<rparr>)
          else (False, d))"

definition update_total_spent :: "db \<Rightarrow> nat \<Rightarrow> rat \<Rightarrow> bool \<times> db" where
  "update_total_spent d cid amount =
     (case clients d cid of
        None \<Rightarrow> (False, d)
      | Some c \<Rightarrow> (True, d\<lparr>clients := (clients d)(cid \<mapsto>
                   c\<lparr>total_spent := total_spent c + amount\<rparr>)\<rparr>))"

text \<open>
  \<^verbatim>\<open>LoyaltyTierRepository.get_tier_for_points\<close>: the active tiers with
  \<^verbatim>\<open>min_points <= ?\<close>, \<^verbatim>\<open>ORDER BY min_points DESC LIMIT 1\<close>. Among tiers of equal
  threshold SQL leaves the choice open; the model takes the first in table order.
\<close>

definition get_tier_for_points :: "loyalty_tier list \<Rightarrow> int \<Rightarrow> loyalty_tier option" where
  "get_tier_for_points ts points =
     (case filter (\<lambda>t. tier_is_active t \<and> min_points t \<le> points) ts of
        [] \<Rightarrow> None
      | t # rest \<Rightarrow>
          Some (fold (\<lambda>u best. if min_points best < min_points u then u else best) rest t))"

text \<open>
  \<^verbatim>\<open>SaleRepository.generate_sale_number\<close>: today's prefix and one more than the largest
  sequence number stored under it (1 when there is none).
\<close>

definition generate_sale_number :: "db \<Rightarrow> nat \<Rightarrow> nat \<times> nat" where
  "generate_sale_number d day =
     (day, Suc (fold max (map (snd \<circ> sale_number \<circ> snd)
                  (filter (\<lambda>(i, s). fst (sale_number s) = day) (sales d))) 0))"

text \<open>
  \<^verbatim>\<open>SaleRepository.create\<close>: inserts the sale with its lines and returns it with the new
  row id (\<^verbatim>\<open>get_last_insert_id\<close>: one more than the largest row id of the table).
\<close>

definition sale_create :: "db \<Rightarrow> sale \<Rightarrow> nat \<times> db" where
  "sale_create d s =
     (let new_id = Suc (fold max (map fst (sales d)) 0)
      in (new_id, d\<lparr>sales := sales d @ [(new_id, s)]\<rparr>))"

text \<open>
  \<^verbatim>\<open>SaleRepository.get_by_id\<close> with \<^verbatim>\<open>get_lines\<close>: the lines are read through an inner
  join with the medicines table. The header is read through an inner join with the users
  table; users are only ever deactivated, so the seller's row is there.
\<close>

definition sale_get_by_id :: "db \<Rightarrow> nat \<Rightarrow> sale option" where
  "sale_get_by_id d sale_id =
     map_option (\<lambda>s. s\<lparr>lines := filter (\<lambda>l. medicaments d (line_medicament_id l) \<noteq> None) (lines s)\<rparr>)
       (map_of (sales d) sale_id)"

text \<open>\<^verbatim>\<open>SaleRepository.cancel\<close>: \<^verbatim>\<open>UPDATE sales SET status = 'cancelled' WHERE id = ?\<close>.\<close>

definition sale_cancel :: "db \<Rightarrow> nat \<Rightarrow> bool \<times> db" where
  "sale_cancel d sale_id =
     (if map_of (sales d) sale_id \<noteq> None
      then (True, d\<lparr>sales := map (\<lambda>(i, s). if i = sale_id then (i, s\<lparr>status := Cancelled\<rparr>) else (i, s))
                               (sales d)\<rparr>)
      else (False, d))"

section \<open>Stock service\<close>

text \<open>
  \<^verbatim>\<open>StockService._record_movement\<close>: appends a movement signed by the current user, or by
  user 1 when nobody is logged in. The \<^verbatim>\<open>StockMovement\<close> constructor rejects a zero
  quantity; every caller below has checked \<^verbatim>\<open>quantity > 0\<close> (or a non-zero difference)
  before it gets here.
\<close>

definition record_movement ::
  "ambient \<Rightarrow> db \<Rightarrow> nat \<Rightarrow> movement_type \<Rightarrow> int \<Rightarrow> reason \<Rightarrow> nat option \<Rightarrow> db" where
  "record_movement a d medicament_id mtype qty rsn reference_id =
     d\<lparr>movements := movements d @
         [\<lparr>mv_medicament_id = medicament_id,
           mv_user_id = (case current_user a of Some u \<Rightarrow> u | None \<Rightarrow> 1),
           mv_type = mtype, mv_quantity = qty,
           mv_reference_id = reference_id, mv_reason = rsn\<rparr>]\<rparr>"

definition add_stock :: "ambient \<Rightarrow> db \<Rightarrow> nat \<Rightarrow> int \<Rightarrow> reason \<Rightarrow> (bool \<times> message) \<times> db" where
  "add_stock a d medicament_id qty rsn =
     (if qty \<le> 0 then ((False, QuantityMustBePositive), d)
      else case medicament_get_by_id d medicament_id of
        None \<Rightarrow> ((False, MedicamentNotFound), d)
      | Some m \<Rightarrow>
          (let (success, d') = update_stock d medicament_id qty
           in if success
              then ((True, StockAdded (quantity_in_stock m + qty)),
                    record_movement a d' medicament_id Entry qty rsn None)
              else ((False, StockUpdateError), d')))"

definition remove_stock ::
  "ambient \<Rightarrow> db \<Rightarrow> nat \<Rightarrow> int \<Rightarrow> reason \<Rightarrow> nat option \<Rightarrow> (bool \<times> message) \<times> db" where
  "remove_stock a d medicament_id qty rsn reference_id =
     (if qty \<le> 0 then ((False, QuantityMustBePositive), d)
      else case medicament_get_by_id d medicament_id of
        None \<Rightarrow> ((False, MedicamentNotFound), d)
      | Some m \<Rightarrow>
          if quantity_in_stock m < qty
          then ((False, InsufficientStock (quantity_in_stock m)), d)
          else (let (success, d') = update_stock d medicament_id (- qty)
                in if success
                   then ((True, StockRemoved (quantity_in_stock m - qty)),
                         record_movement a d' medicament_id Exit (- qty) rsn reference_id)
                   else ((False, StockUpdateError), d')))"

definition adjust_stock :: "ambient \<Rightarrow> db \<Rightarrow> nat \<Rightarrow> int \<Rightarrow> reason \<Rightarrow> (bool \<times> message) \<times> db" where
  "adjust_stock a d medicament_id new_quantity rsn =
     (if new_quantity < 0 then ((False, NegativeQuantity), d)
      else case medicament_get_by_id d medicament_id of
        None \<Rightarrow> ((False, MedicamentNotFound), d)
      | Some m \<Rightarrow>
          (let difference = new_quantity - quantity_in_stock m
           in if difference = 0 then ((True, StockAlreadyAtValue), d)
              else (let (success, d') = medicament_update d (m\<lparr>quantity_in_stock := new_quantity\<rparr>)
                    in if success
                       then ((True, StockAdjusted new_quantity),
                             record_movement a d' medicament_id Adjustment difference rsn None)
                       else ((False, AdjustError), d'))))"

definition check_stock_availability :: "db \<Rightarrow> nat \<Rightarrow> int \<Rightarrow> bool \<times> int" where
  "check_stock_availability d medicament_id qty =
     (case medicament_get_by_id d medicament_id of
        None \<Rightarrow> (False, 0)
      | Some m \<Rightarrow> (qty \<le> quantity_in_stock m, quantity_in_stock m))"

section \<open>Loyalty service\<close>

definition calculate_points_earned :: "ambient \<Rightarrow> rat \<Rightarrow> int" where
  "calculate_points_earned a amount =
     (if amount \<le> 0 \<or> points_per_unit a \<le> 0 then 0
      else \<lfloor>amount / points_per_unit a\<rfloor>)"

definition get_client_discount :: "db \<Rightarrow> client \<Rightarrow> rat" where
  "get_client_discount d c =
     (case get_tier_for_points (tiers d) (loyalty_points c) of
        None \<Rightarrow> 0
      | Some t \<Rightarrow> tier_discount_percentage t)"

text \<open>\<^verbatim>\<open>LoyaltyService.apply_discount\<close>: (final amount, discount percentage, discount amount).\<close>

definition apply_discount :: "db \<Rightarrow> rat \<Rightarrow> client option \<Rightarrow> rat \<times> rat \<times> rat" where
  "apply_discount d amount cl =
     (case cl of
        None \<Rightarrow> (amount, 0, 0)
      | Some c \<Rightarrow>
          if amount \<le> 0 then (amount, 0, 0)
          else (let dp = get_client_discount d c
                in if dp \<le> 0 then (amount, 0, 0)
                   else (let discount_amt = amount * (dp / 100);
                             final_amount = amount - discount_amt
                         in (py_round2 final_amount, dp, py_round2 discount_amt))))"

definition add_points_to_client ::
  "ambient \<Rightarrow> db \<Rightarrow> nat \<Rightarrow> rat \<Rightarrow> (bool \<times> int \<times> message) \<times> db" where
  "add_points_to_client a d cid amount =
     (case client_get_by_id d cid of
        None \<Rightarrow> ((False, 0, ClientNotFound), d)
      | Some c \<Rightarrow>
          (let points = calculate_points_earned a amount
           in if 0 < points
              then (let (success, d') = update_loyalty_points d cid points
                    in if success
                       then ((True, points, PointsAdded points (loyalty_points c + points)), d')
                       else ((False, 0, PointsAddError), d'))
              else ((True, 0, NoPointsEarned), d)))"

definition use_client_points :: "db \<Rightarrow> nat \<Rightarrow> int \<Rightarrow> (bool \<times> message) \<times> db" where
  "use_client_points d cid points =
     (if points \<le> 0 then ((False, PointsMustBePositive), d)
      else case client_get_by_id d cid of
        None \<Rightarrow> ((False, ClientNotFound), d)
      | Some c \<Rightarrow>
          if loyalty_points c < points
          then ((False, InsufficientPoints (loyalty_points c)), d)
          else (let (success, d') = update_loyalty_points d cid (- points)
                in if success then ((True, PointsUsed points), d')
                   else ((False, PointsUseError), d')))"

section \<open>Cart and sale service\<close>

definition line_total :: "cart_item \<Rightarrow> rat" where
  "line_total it = round_currency (of_int (quantity it) * unit_price it)"

definition cart_subtotal :: "cart \<Rightarrow> rat" where
  "cart_subtotal c = round_currency (sum_list (map line_total (items c)))"

definition items_count :: "cart \<Rightarrow> int" where
  "items_count c = sum_list (map quantity (items c))"

definition cart_clear :: "cart \<Rightarrow> cart" where
  "cart_clear c = c\<lparr>items := [], cart_client := None\<rparr>"

text \<open>The loops of the cart operations stop at the first line of the medicine.\<close>

fun find_item :: "nat \<Rightarrow> cart_item list \<Rightarrow> cart_item option" where
  "find_item medicament_id [] = None"
| "find_item medicament_id (it # its) =
     (if med_id (medicament it) = medicament_id then Some it else find_item medicament_id its)"

fun set_first_quantity :: "nat \<Rightarrow> int \<Rightarrow> cart_item list \<Rightarrow> cart_item list" where
  "set_first_quantity medicament_id q [] = []"
| "set_first_quantity medicament_id q (it # its) =
     (if med_id (medicament it) = medicament_id then it\<lparr>quantity := q\<rparr> # its
      else it # set_first_quantity medicament_id q its)"

fun remove_first :: "nat \<Rightarrow> cart_item list \<Rightarrow> cart_item list" where
  "remove_first medicament_id [] = []"
| "remove_first medicament_id (it # its) =
     (if med_id (medicament it) = medicament_id then its
      else it # remove_first medicament_id its)"

definition add_to_cart :: "db \<Rightarrow> cart \<Rightarrow> nat \<Rightarrow> int \<Rightarrow> (bool \<times> message) \<times> cart" where
  "add_to_cart d c medicament_id qty =
     (if qty \<le> 0 then ((False, QuantityMustBePositive), c)
      else case medicament_get_by_id d medicament_id of
        None \<Rightarrow> ((False, MedicamentNotFound), c)
      | Some m \<Rightarrow>
          if \<not> med_is_active m then ((False, MedicamentUnavailable), c)
          else (let existing_item = find_item medicament_id (items c);
                    current_in_cart = (case existing_item of None \<Rightarrow> 0 | Some it \<Rightarrow> quantity it);
                    total_needed = current_in_cart + qty
                in if quantity_in_stock m < total_needed
                   then ((False, InsufficientStock (max 0 (quantity_in_stock m - current_in_cart))), c)
                   else (case existing_item of
                           Some it \<Rightarrow>
                             ((True, AddedToCart),
                              c\<lparr>items := set_first_quantity medicament_id (quantity it + qty) (items c)\<rparr>)
                         | None \<Rightarrow>
                             ((True, AddedToCart),
                              c\<lparr>items := items c @
                                  [\<lparr>medicament = m, quantity = qty, unit_price = selling_price m\<rparr>]\<rparr>))))"

definition remove_from_cart :: "cart \<Rightarrow> nat \<Rightarrow> (bool \<times> message) \<times> cart" where
  "remove_from_cart c medicament_id =
     (case find_item medicament_id (items c) of
        Some _ \<Rightarrow> ((True, RemovedFromCart), c\<lparr>items := remove_first medicament_id (items c)\<rparr>)
      | None \<Rightarrow> ((False, ItemNotInCart), c))"

definition update_cart_quantity :: "cart \<Rightarrow> nat \<Rightarrow> int \<Rightarrow> (bool \<times> message) \<times> cart" where
  "update_cart_quantity c medicament_id qty =
     (if qty \<le> 0 then remove_from_cart c medicament_id
      else case find_item medicament_id (items c) of
        Some it \<Rightarrow>
          if quantity_in_stock (medicament it) < qty
          then ((False, InsufficientStock (quantity_in_stock (medicament it))), c)
          else ((True, QuantityUpdated), c\<lparr>items := set_first_quantity medicament_id qty (items c)\<rparr>)
      | None \<Rightarrow> ((False, ItemNotInCart), c))"

definition set_client :: "db \<Rightarrow> cart \<Rightarrow> nat \<Rightarrow> (bool \<times> message) \<times> cart" where
  "set_client d c cid =
     (case client_get_by_id d cid of
        None \<Rightarrow> ((False, ClientNotFound), c)
      | Some cl \<Rightarrow>
          if \<not> client_is_active cl then ((False, ClientInactive), c)
          else ((True, ClientAttached), c\<lparr>cart_client := Some cl\<rparr>))"

record totals =
  t_subtotal :: rat
  t_discount_percentage :: rat
  t_discount_amount :: rat
  t_total :: rat
  t_points_earned :: int
  t_items_count :: int

definition calculate_totals :: "ambient \<Rightarrow> db \<Rightarrow> cart \<Rightarrow> totals" where
  "calculate_totals a d c =
     (let sub = cart_subtotal c
      in case cart_client c of
           Some cl \<Rightarrow>
             (let (final, dp, da) = apply_discount d sub (Some cl)
              in \<lparr>t_subtotal = sub, t_discount_percentage = dp, t_discount_amount = da,
                  t_total = round_currency final,
                  t_points_earned = calculate_points_earned a final,
                  t_items_count = items_count c\<rparr>)
         | None \<Rightarrow>
             \<lparr>t_subtotal = sub, t_discount_percentage = 0, t_discount_amount = 0,
              t_total = round_currency sub, t_points_earned = 0,
              t_items_count = items_count c\<rparr>)"

text \<open>The re-check loop of \<^verbatim>\<open>validate_sale\<close>: the first line the live stock does not cover.\<close>

fun first_unavailable :: "db \<Rightarrow> cart_item list \<Rightarrow> cart_item option" where
  "first_unavailable d [] = None"
| "first_unavailable d (it # its) =
     (if fst (check_stock_availability d (med_id (medicament it)) (quantity it))
      then first_unavailable d its else Some it)"

text \<open>
  The constructors \<^verbatim>\<open>Sale.__post_init__\<close> and \<^verbatim>\<open>SaleLine.__post_init__\<close> raise
  \<^verbatim>\<open>ValueError\<close> on these conditions (a generated sale number is never empty, the status
  is the literal \<^verbatim>\<open>'completed'\<close>).
\<close>

definition sale_init_raises :: "nat \<Rightarrow> totals \<Rightarrow> bool" where
  "sale_init_raises uid t = (uid = 0 \<or> t_subtotal t < 0 \<or> t_total t < 0)"

definition sale_line_init_raises :: "cart_item \<Rightarrow> bool" where
  "sale_line_init_raises it = (quantity it \<le> 0 \<or> unit_price it < 0 \<or> line_total it < 0)"

definition make_line :: "cart_item \<Rightarrow> sale_line" where
  "make_line it =
     \<lparr>line_medicament_id = med_id (medicament it), line_quantity = quantity it,
      line_unit_price = unit_price it, line_total_amount = line_total it\<rparr>"

text \<open>
  The stock loop of \<^verbatim>\<open>validate_sale\<close>: one \<^verbatim>\<open>remove_stock\<close> call per cart line; the
  source drops the \<^verbatim>\<open>(bool, str)\<close> each call returns.
\<close>

fun remove_stock_all :: "ambient \<Rightarrow> nat \<Rightarrow> cart_item list \<Rightarrow> db \<Rightarrow> db" where
  "remove_stock_all a sid [] d = d"
| "remove_stock_all a sid (it # its) d =
     remove_stock_all a sid its
       (snd (remove_stock a d (med_id (medicament it)) (quantity it) SaleReason (Some sid)))"

definition make_sale :: "ambient \<Rightarrow> db \<Rightarrow> cart \<Rightarrow> nat \<Rightarrow> totals \<Rightarrow> sale" where
  "make_sale a d c uid t =
     \<lparr>sale_number = generate_sale_number d (today a),
      user_id = uid,
      client_id = map_option client_ident (cart_client c),
      subtotal = t_subtotal t,
      discount_percentage = t_discount_percentage t,
      discount_amount = t_discount_amount t,
      total = t_total t,
      loyalty_points_earned = t_points_earned t,
      loyalty_points_used = 0,
      status = Completed,
      lines = map make_line (items c)\<rparr>"

text \<open>
  \<^verbatim>\<open>SaleService.validate_sale\<close>. The result is the returned triple (flag, message, the
  created sale with its row id), the store and the service's cart afterwards. A
  \<^verbatim>\<open>ValueError\<close> of a constructor is raised before the first write and caught by the
  \<^verbatim>\<open>except\<close> clause.
\<close>

definition validate_sale ::
  "ambient \<Rightarrow> db \<Rightarrow> cart \<Rightarrow> (bool \<times> message \<times> (nat \<times> sale) option) \<times> db \<times> cart" where
  "validate_sale a d c =
     (if items c = [] then ((False, EmptyCart, None), d, c)
      else case current_user a of
        None \<Rightarrow> ((False, NotLoggedIn, None), d, c)
      | Some uid \<Rightarrow>
          (case first_unavailable d (items c) of
             Some it \<Rightarrow> ((False, InsufficientStockFor (med_id (medicament it)), None), d, c)
           | None \<Rightarrow>
               (let t = calculate_totals a d c
                in if sale_init_raises uid t \<or> list_ex sale_line_init_raises (items c)
                   then ((False, ValidationFailed, None), d, c)
                   else (let s = make_sale a d c uid t;
                             (sid, d1) = sale_create d s;
                             d2 = remove_stock_all a sid (items c) d1;
                             d3 = (case cart_client c of
                                     None \<Rightarrow> d2
                                   | Some cl \<Rightarrow>
                                       snd (update_total_spent
                                              (snd (add_points_to_client a d2 (client_ident cl) (t_total t)))
                                              (client_ident cl) (t_total t)))
                         in ((True, SaleRecorded, Some (sid, s)), d3, cart_clear c)))))"

text \<open>The restock loop of \<^verbatim>\<open>cancel_sale\<close>: one \<^verbatim>\<open>add_stock\<close> call per sale line.\<close>

fun add_stock_all :: "ambient \<Rightarrow> nat \<times> nat \<Rightarrow> sale_line list \<Rightarrow> db \<Rightarrow> db" where
  "add_stock_all a num [] d = d"
| "add_stock_all a num (l # ls) d =
     add_stock_all a num ls
       (snd (add_stock a d (line_medicament_id l) (line_quantity l) (CancelReason num)))"

text \<open>\<^verbatim>\<open>SaleService.cancel_sale\<close>. Python's \<^verbatim>\<open>if sale.client_id\<close> holds for an id that is
  neither \<^verbatim>\<open>None\<close> nor 0.\<close>

definition cancel_sale :: "ambient \<Rightarrow> db \<Rightarrow> nat \<Rightarrow> (bool \<times> message) \<times> db" where
  "cancel_sale a d sale_id =
     (case sale_get_by_id d sale_id of
        None \<Rightarrow> ((False, SaleNotFound), d)
      | Some s \<Rightarrow>
          if status s = Cancelled then ((False, AlreadyCancelled), d)
          else (let (success, d1) = sale_cancel d sale_id
                in if success
                   then (let d2 = add_stock_all a (sale_number s) (lines s) d1;
                             d3 = (case client_id s of
                                     None \<Rightarrow> d2
                                   | Some cid \<Rightarrow>
                                       if cid \<noteq> 0 \<and> 0 < loyalty_points_earned s
                                       then snd (use_client_points d2 cid (loyalty_points_earned s))
                                       else d2)
                         in ((True, SaleCancelled), d3))
                   else ((False, CancelError), d1)))"

section \<open>Auxiliary notions and example states\<close>

definition ex_ambient :: ambient where
  "ex_ambient = \<lparr>current_user = Some 1, points_per_unit = 10, today = 20250115\<rparr>"

definition ex_med :: medicament where
  "ex_med = \<lparr>med_id = 1, selling_price = 1000, quantity_in_stock = 20, med_is_active = True\<rparr>"

definition ex_client :: client where
  "ex_client = \<lparr>client_ident = 1, loyalty_points = 600, total_spent = 0, client_is_active = True\<rparr>"

definition ex_tiers :: "loyalty_tier list" where
  "ex_tiers =
     [\<lparr>min_points = 100, tier_discount_percentage = 2, tier_is_active = True\<rparr>,
      \<lparr>min_points = 500, tier_discount_percentage = 8, tier_is_active = True\<rparr>]"

definition ex_db :: db where
  "ex_db =
     \<lparr>medicaments = [1 \<mapsto> ex_med], clients = [1 \<mapsto> ex_client], tiers = ex_tiers,
      sales = [], movements = []\<rparr>"

definition ex_cart :: cart where
  "ex_cart =
     \<lparr>items = [\<lparr>medicament = ex_med, quantity = 1, unit_price = 1000\<rparr>],
      cart_client = Some ex_client\<rparr>"

definition ex_sale_cancelled :: sale where
  "ex_sale_cancelled =
     \<lparr>sale_number = (20250115, 1), user_id = 1, client_id = Some 1, subtotal = 1000,
      discount_percentage = 8, discount_amount = 80, total = 920, loyalty_points_earned = 92,
      loyalty_points_used = 0, status = Cancelled,
      lines = [\<lparr>line_medicament_id = 1, line_quantity = 1, line_unit_price = 1000,
                line_total_amount = 1000\<rparr>]\<rparr>"

definition ex_db_cancelled :: db where
  "ex_db_cancelled = ex_db\<lparr>sales := [(1, ex_sale_cancelled)]\<rparr>"

definition ex_cart_empty :: cart where
  "ex_cart_empty = \<lparr>items = [], cart_client = Some ex_client\<rparr>"

definition ex_ambient_nobody :: ambient where
  "ex_ambient_nobody = ex_ambient\<lparr>current_user := None\<rparr>"

definition ex_cart_too_many :: cart where
  "ex_cart_too_many =
     \<lparr>items = [\<lparr>medicament = ex_med, quantity = 21, unit_price = 1000\<rparr>],
      cart_client = Some ex_client\<rparr>"

text \<open>The store invariant of C2: no stored medicine has a negative quantity.\<close>

definition stock_nonneg :: "db \<Rightarrow> bool" where
  "stock_nonneg d = (\<forall>i m. medicaments d i = Some m \<longrightarrow> 0 \<le> quantity_in_stock m)"

definition ex_sale_completed :: sale where
  "ex_sale_completed = ex_sale_cancelled\<lparr>status := Completed\<rparr>"

text \<open>A store where the customer of sale 1 has spent points since: 50 left of the 92 earned.\<close>

definition ex_db_spent :: db where
  "ex_db_spent =
     ex_db\<lparr>clients := [1 \<mapsto> ex_client\<lparr>loyalty_points := 50\<rparr>],
           sales := [(1, ex_sale_completed)]\<rparr>"

definition ex_db_completed :: db where
  "ex_db_completed = ex_db\<lparr>sales := [(1, ex_sale_completed)]\<rparr>"

text \<open>The quantity \<^verbatim>\<open>add_to_cart\<close> finds in the cart for a medicine: that of its first
  line, 0 when it has none.\<close>

definition current_in_cart :: "nat \<Rightarrow> cart_item list \<Rightarrow> int" where
  "current_in_cart medicament_id its =
     (case find_item medicament_id its of None \<Rightarrow> 0 | Some it \<Rightarrow> quantity it)"

text \<open>The stock of medicine 1 has fallen to 1 while the cart still holds 2 of it.\<close>

definition ex_db_low :: db where
  "ex_db_low = ex_db\<lparr>medicaments := [1 \<mapsto> ex_med\<lparr>quantity_in_stock := 1\<rparr>]\<rparr>"

definition ex_cart_two :: cart where
  "ex_cart_two =
     \<lparr>items = [\<lparr>medicament = ex_med, quantity = 2, unit_price = 1000\<rparr>],
      cart_client = None\<rparr>"

text \<open>An amount with at most two decimals: a whole number of hundredths.\<close>

definition is_cents :: "rat \<Rightarrow> bool" where
  "is_cents x = (of_int \<lfloor>x * 100\<rfloor> = x * 100)"

definition ex_cart_anonymous :: cart where
  "ex_cart_anonymous = ex_cart\<lparr>cart_client := None\<rparr>"

text \<open>The state after the three checks and the constructors have passed.\<close>

definition committed :: "ambient \<Rightarrow> db \<Rightarrow> cart \<Rightarrow> nat \<Rightarrow> db" where
  "committed a d c uid =
     (let t = calculate_totals a d c;
          s = make_sale a d c uid t;
          d2 = remove_stock_all a (fst (sale_create d s)) (items c) (snd (sale_create d s))
      in case cart_client c of
           None \<Rightarrow> d2
         | Some cl \<Rightarrow>
             snd (update_total_spent
                    (snd (add_points_to_client a d2 (client_ident cl) (t_total t)))
                    (client_ident cl) (t_total t)))"





text \<open>The first line of a sale for a medicine.\<close>

fun find_line :: "nat \<Rightarrow> sale_line list \<Rightarrow> sale_line option" where
  "find_line medicament_id [] = None"
| "find_line medicament_id (l # ls) =
     (if line_medicament_id l = medicament_id then Some l else find_line medicament_id ls)"

text \<open>A cart as the cart operations build it: at most one line per medicine.\<close>

definition cart_distinct :: "cart \<Rightarrow> bool" where
  "cart_distinct c = distinct (map (\<lambda>it. med_id (medicament it)) (items c))"




section \<open>Basic facts\<close>

lemma medicaments_record_movement [simp]:
  "medicaments (record_movement a d i t q r ref) = medicaments d"
  by (simp add: record_movement_def)

lemma clients_record_movement [simp]:
  "clients (record_movement a d i t q r ref) = clients d"
  by (simp add: record_movement_def)

lemma sales_record_movement [simp]:
  "sales (record_movement a d i t q r ref) = sales d"
  by (simp add: record_movement_def)

lemma tiers_record_movement [simp]:
  "tiers (record_movement a d i t q r ref) = tiers d"
  by (simp add: record_movement_def)

section \<open>Cancelling a cancelled sale\<close>

text \<open>
  C7. \<^verbatim>\<open>cancel_sale\<close> on a stored sale whose status is cancelled returns the failure
  message of an already cancelled sale and leaves the whole store as it was: no status
  change, no stock increment, no movement, no point deduction.
\<close>

theorem cancel_sale_already_cancelled:
  "map_of (sales d) sale_id = Some s \<Longrightarrow> status s = Cancelled \<Longrightarrow>
   cancel_sale a d sale_id = ((False, AlreadyCancelled), d)"
  by (simp add: cancel_sale_def sale_get_by_id_def)

theorem cancel_sale_already_cancelled_witness:
  "map_of (sales ex_db_cancelled) 1 = Some ex_sale_cancelled \<and>
   status ex_sale_cancelled = Cancelled \<and>
   cancel_sale ex_ambient ex_db_cancelled 1 = ((False, AlreadyCancelled), ex_db_cancelled)"
  using cancel_sale_already_cancelled [of ex_db_cancelled 1 ex_sale_cancelled ex_ambient]
  by (simp add: ex_db_cancelled_def ex_sale_cancelled_def)

section \<open>Validation before mutation\<close>

lemma first_unavailable_None_iff:
  "first_unavailable d its = None \<longleftrightarrow>
   (\<forall>it \<in> set its. fst (check_stock_availability d (med_id (medicament it)) (quantity it)))"
  by (induction its) auto

lemma first_unavailable_Some:
  "first_unavailable d its = Some it \<Longrightarrow>
   it \<in> set its \<and> \<not> fst (check_stock_availability d (med_id (medicament it)) (quantity it))"
  by (induction its) (auto split: if_splits)

text \<open>
  C6. \<^verbatim>\<open>validate_sale\<close> checks the empty cart, the logged-in user and the live stock of
  every line before its first write. When one of these checks fails it returns a failure
  without a sale, and the store (sales, stock, movements, clients) and the cart are
  exactly what they were; the stock failure names a line that the live stock does not
  cover.
\<close>

theorem validate_sale_checks_before_mutation:
  "(items c = [] \<longrightarrow> validate_sale a d c = ((False, EmptyCart, None), d, c)) \<and>
   (items c \<noteq> [] \<longrightarrow> current_user a = None \<longrightarrow>
      validate_sale a d c = ((False, NotLoggedIn, None), d, c)) \<and>
   (items c \<noteq> [] \<longrightarrow> current_user a \<noteq> None \<longrightarrow>
      (\<exists>it \<in> set (items c).
          \<not> fst (check_stock_availability d (med_id (medicament it)) (quantity it))) \<longrightarrow>
      (\<exists>it \<in> set (items c).
          \<not> fst (check_stock_availability d (med_id (medicament it)) (quantity it)) \<and>
          validate_sale a d c = ((False, InsufficientStockFor (med_id (medicament it)), None), d, c)))"
proof (intro conjI impI)
  assume "items c = []"
  then show "validate_sale a d c = ((False, EmptyCart, None), d, c)"
    by (simp add: validate_sale_def)
next
  assume "items c \<noteq> []" "current_user a = None"
  then show "validate_sale a d c = ((False, NotLoggedIn, None), d, c)"
    by (simp add: validate_sale_def)
next
  assume ne: "items c \<noteq> []" and u: "current_user a \<noteq> None"
    and ex: "\<exists>it \<in> set (items c).
          \<not> fst (check_stock_availability d (med_id (medicament it)) (quantity it))"
  from u obtain uid where uid: "current_user a = Some uid" by auto
  from ex have "first_unavailable d (items c) \<noteq> None"
    by (simp add: first_unavailable_None_iff)
  then obtain it where it: "first_unavailable d (items c) = Some it" by auto
  have "validate_sale a d c = ((False, InsufficientStockFor (med_id (medicament it)), None), d, c)"
    using ne uid it by (simp add: validate_sale_def)
  with first_unavailable_Some [OF it]
  show "\<exists>it \<in> set (items c).
          \<not> fst (check_stock_availability d (med_id (medicament it)) (quantity it)) \<and>
          validate_sale a d c = ((False, InsufficientStockFor (med_id (medicament it)), None), d, c)"
    by blast
qed

theorem validate_sale_checks_before_mutation_witness:
  "validate_sale ex_ambient ex_db ex_cart_empty = ((False, EmptyCart, None), ex_db, ex_cart_empty) \<and>
   validate_sale ex_ambient_nobody ex_db ex_cart = ((False, NotLoggedIn, None), ex_db, ex_cart) \<and>
   \<not> fst (check_stock_availability ex_db 1 21) \<and>
   validate_sale ex_ambient ex_db ex_cart_too_many =
     ((False, InsufficientStockFor 1, None), ex_db, ex_cart_too_many)"
proof -
  have av: "\<not> fst (check_stock_availability ex_db 1 21)"
    by (simp add: check_stock_availability_def medicament_get_by_id_def ex_db_def ex_med_def)
  have "validate_sale ex_ambient ex_db ex_cart_empty = ((False, EmptyCart, None), ex_db, ex_cart_empty)"
    using validate_sale_checks_before_mutation [of ex_cart_empty ex_ambient ex_db]
    by (simp add: ex_cart_empty_def)
  moreover have "validate_sale ex_ambient_nobody ex_db ex_cart = ((False, NotLoggedIn, None), ex_db, ex_cart)"
    using validate_sale_checks_before_mutation [of ex_cart ex_ambient_nobody ex_db]
    by (simp add: ex_cart_def ex_ambient_nobody_def)
  moreover have "validate_sale ex_ambient ex_db ex_cart_too_many =
     ((False, InsufficientStockFor 1, None), ex_db, ex_cart_too_many)"
    using validate_sale_checks_before_mutation [of ex_cart_too_many ex_ambient ex_db] av
    by (simp add: ex_cart_too_many_def ex_ambient_def ex_med_def)
  ultimately show ?thesis using av by simp
qed

section \<open>Stock is never negative\<close>

lemma update_stock_nonneg:
  "stock_nonneg d \<Longrightarrow> stock_nonneg (snd (update_stock d i delta))"
  by (auto simp: stock_nonneg_def update_stock_def split: option.splits)

lemma update_stock_refuses:
  "medicaments d i = Some m \<Longrightarrow> quantity_in_stock m + delta < 0 \<Longrightarrow>
   update_stock d i delta = (False, d)"
  by (simp add: update_stock_def)

lemma add_stock_nonneg:
  "stock_nonneg d \<Longrightarrow> stock_nonneg (snd (add_stock a d i q r))"
proof -
  assume inv: "stock_nonneg d"
  have "stock_nonneg (record_movement a (snd (update_stock d i q)) i Entry q r None)"
    using update_stock_nonneg [OF inv] by (simp add: stock_nonneg_def)
  with inv update_stock_nonneg [OF inv, of i q] show ?thesis
    by (simp add: add_stock_def Let_def split_beta split: option.splits)
qed

lemma remove_stock_nonneg:
  "stock_nonneg d \<Longrightarrow> stock_nonneg (snd (remove_stock a d i q r ref))"
proof -
  assume inv: "stock_nonneg d"
  have "stock_nonneg (record_movement a (snd (update_stock d i (- q))) i Exit (- q) r ref)"
    using update_stock_nonneg [OF inv] by (simp add: stock_nonneg_def)
  with inv update_stock_nonneg [OF inv, of i "- q"] show ?thesis
    by (simp add: remove_stock_def Let_def split_beta split: option.splits)
qed

lemma adjust_stock_nonneg:
  "stock_nonneg d \<Longrightarrow> stock_nonneg (snd (adjust_stock a d i n r))"
  by (auto simp: adjust_stock_def medicament_update_def medicament_get_by_id_def
        stock_nonneg_def Let_def split: option.splits)

lemma remove_stock_all_nonneg:
  "stock_nonneg d \<Longrightarrow> stock_nonneg (remove_stock_all a sid its d)"
  by (induction its arbitrary: d) (simp_all add: remove_stock_nonneg)

lemma add_stock_all_nonneg:
  "stock_nonneg d \<Longrightarrow> stock_nonneg (add_stock_all a num ls d)"
  by (induction ls arbitrary: d) (simp_all add: add_stock_nonneg)

lemma medicaments_sale_create [simp]: "medicaments (snd (sale_create d s)) = medicaments d"
  by (simp add: sale_create_def Let_def)

lemma medicaments_sale_cancel [simp]: "medicaments (snd (sale_cancel d i)) = medicaments d"
  by (simp add: sale_cancel_def)

lemma medicaments_update_loyalty_points [simp]:
  "medicaments (snd (update_loyalty_points d i p)) = medicaments d"
  by (simp add: update_loyalty_points_def split: option.splits)

lemma medicaments_update_total_spent [simp]:
  "medicaments (snd (update_total_spent d i x)) = medicaments d"
  by (simp add: update_total_spent_def split: option.splits)

lemma medicaments_add_points_to_client [simp]:
  "medicaments (snd (add_points_to_client a d i x)) = medicaments d"
  by (simp add: add_points_to_client_def Let_def split_beta split: option.splits)

lemma medicaments_use_client_points [simp]:
  "medicaments (snd (use_client_points d i p)) = medicaments d"
  by (simp add: use_client_points_def Let_def split_beta split: option.splits)

lemma stock_nonneg_medicaments:
  "stock_nonneg d \<Longrightarrow> medicaments d' = medicaments d \<Longrightarrow> stock_nonneg d'"
  by (simp add: stock_nonneg_def)

lemma validate_sale_nonneg:
  assumes inv: "stock_nonneg d"
  shows "stock_nonneg (fst (snd (validate_sale a d c)))"
proof -
  have step: "stock_nonneg (remove_stock_all a sid (items c) (snd (sale_create d s)))" for sid s
    by (rule remove_stock_all_nonneg) (rule stock_nonneg_medicaments [OF inv], simp)
  show ?thesis
    using inv step
    by (simp add: validate_sale_def Let_def split_beta stock_nonneg_def
          split: option.splits)
qed

lemma cancel_sale_nonneg:
  assumes inv: "stock_nonneg d"
  shows "stock_nonneg (snd (cancel_sale a d sid))"
proof -
  have step: "stock_nonneg (add_stock_all a num ls (snd (sale_cancel d sid)))" for num ls
    by (rule add_stock_all_nonneg) (rule stock_nonneg_medicaments [OF inv], simp)
  show ?thesis
    using inv step
    by (simp add: cancel_sale_def Let_def split_beta stock_nonneg_def
          split: option.splits)
qed

text \<open>
  C2. The quantity in stock is never negative. \<^verbatim>\<open>update_stock\<close> refuses a change that
  would take the quantity of a stored medicine below zero: it returns \<^verbatim>\<open>False\<close> and
  the store is unchanged (nothing is clamped). From a store without negative quantities,
  \<^verbatim>\<open>update_stock\<close>, \<^verbatim>\<open>remove_stock\<close>, \<^verbatim>\<open>add_stock\<close>, \<^verbatim>\<open>adjust_stock\<close>,
  \<^verbatim>\<open>validate_sale\<close> and \<^verbatim>\<open>cancel_sale\<close> all end in a store without negative quantities.
\<close>

theorem stock_never_negative:
  assumes "stock_nonneg d"
  shows "(\<forall>m. medicaments d i = Some m \<longrightarrow> quantity_in_stock m + delta < 0 \<longrightarrow>
            update_stock d i delta = (False, d)) \<and>
         stock_nonneg (snd (update_stock d i delta)) \<and>
         stock_nonneg (snd (remove_stock a d i q r ref)) \<and>
         stock_nonneg (snd (add_stock a d i q r)) \<and>
         stock_nonneg (snd (adjust_stock a d i q r)) \<and>
         stock_nonneg (fst (snd (validate_sale a d c))) \<and>
         stock_nonneg (snd (cancel_sale a d sid))"
  using assms
  by (simp add: update_stock_refuses update_stock_nonneg remove_stock_nonneg add_stock_nonneg
        adjust_stock_nonneg validate_sale_nonneg cancel_sale_nonneg)

theorem stock_never_negative_witness:
  "stock_nonneg ex_db \<and>
   update_stock ex_db 1 (- 21) = (False, ex_db) \<and>
   stock_nonneg (snd (update_stock ex_db 1 (- 21))) \<and>
   stock_nonneg (snd (remove_stock ex_ambient ex_db 1 20 ManualExit None)) \<and>
   stock_nonneg (snd (add_stock ex_ambient ex_db 1 5 Restock)) \<and>
   stock_nonneg (snd (adjust_stock ex_ambient ex_db 1 0 InventoryAdjustment)) \<and>
   stock_nonneg (fst (snd (validate_sale ex_ambient ex_db ex_cart))) \<and>
   stock_nonneg (snd (cancel_sale ex_ambient ex_db 1))"
proof -
  have inv: "stock_nonneg ex_db"
    by (simp add: stock_nonneg_def ex_db_def ex_med_def)
  have m: "medicaments ex_db 1 = Some ex_med" "quantity_in_stock ex_med + (- 21) < 0"
    by (simp_all add: ex_db_def ex_med_def)
  have "update_stock ex_db 1 (- 21) = (False, ex_db)"
    using stock_never_negative [OF inv, of 1 "- 21"] m by simp
  moreover note stock_never_negative [OF inv, of 1 "- 21" ex_ambient 20 ManualExit None ex_cart 1]
    stock_never_negative [OF inv, of 1 "- 21" ex_ambient 5 Restock None ex_cart 1]
    stock_never_negative [OF inv, of 1 "- 21" ex_ambient 0 InventoryAdjustment None ex_cart 1]
  ultimately show ?thesis using inv by simp
qed

section \<open>Point deduction at cancellation\<close>

lemma clients_update_stock [simp]: "clients (snd (update_stock d i q)) = clients d"
  by (simp add: update_stock_def split: option.splits)

lemma clients_add_stock [simp]: "clients (snd (add_stock a d i q r)) = clients d"
  by (simp add: add_stock_def Let_def split_beta split: option.splits)

lemma clients_remove_stock [simp]: "clients (snd (remove_stock a d i q r ref)) = clients d"
  by (simp add: remove_stock_def Let_def split_beta split: option.splits)

lemma clients_add_stock_all [simp]: "clients (add_stock_all a num ls d) = clients d"
  by (induction ls arbitrary: d) simp_all

lemma clients_remove_stock_all [simp]: "clients (remove_stock_all a sid its d) = clients d"
  by (induction its arbitrary: d) simp_all

lemma clients_sale_cancel [simp]: "clients (snd (sale_cancel d i)) = clients d"
  by (simp add: sale_cancel_def)

lemma clients_sale_create [simp]: "clients (snd (sale_create d s)) = clients d"
  by (simp add: sale_create_def Let_def)

lemma sale_cancel_stored: "map_of (sales d) i = Some s \<Longrightarrow> fst (sale_cancel d i)"
  by (simp add: sale_cancel_def)

lemma use_client_points_balance:
  assumes "clients d cid = Some cl" "0 < p"
  shows "clients (snd (use_client_points d cid p)) cid =
         Some (cl\<lparr>loyalty_points :=
                 (if loyalty_points cl < p then loyalty_points cl else loyalty_points cl - p)\<rparr>)"
  using assms
  by (simp add: use_client_points_def client_get_by_id_def update_loyalty_points_def)

text \<open>
  C4, as the code has it. Cancelling a completed sale with an attached customer and
  \<open>P > 0\<close> earned points succeeds whatever the customer's balance \<open>B\<close> is. The
  deduction is all or nothing: with \<open>B \<ge> P\<close> the balance becomes \<open>B - P\<close>; with
  \<open>B < P\<close> \<^verbatim>\<open>use_client_points\<close> refuses, \<^verbatim>\<open>cancel_sale\<close> ignores the refusal and the
  balance stays \<open>B\<close>.
\<close>

theorem cancel_sale_points_all_or_nothing:
  assumes "map_of (sales d) sid = Some s" and "status s = Completed"
    and "client_id s = Some cid" and "cid \<noteq> 0" and "0 < loyalty_points_earned s"
    and "clients d cid = Some cl"
  shows "fst (cancel_sale a d sid) = (True, SaleCancelled) \<and>
         clients (snd (cancel_sale a d sid)) cid =
           Some (cl\<lparr>loyalty_points :=
                   (if loyalty_points cl < loyalty_points_earned s then loyalty_points cl
                    else loyalty_points cl - loyalty_points_earned s)\<rparr>)"
proof -
  let ?s = "s\<lparr>lines := filter (\<lambda>l. medicaments d (line_medicament_id l) \<noteq> None) (lines s)\<rparr>"
  let ?d2 = "add_stock_all a (sale_number s) (lines ?s) (snd (sale_cancel d sid))"
  have get: "sale_get_by_id d sid = Some ?s"
    using assms(1) by (simp add: sale_get_by_id_def)
  have cl2: "clients ?d2 cid = Some cl"
    using assms(6) by simp
  have res: "cancel_sale a d sid =
      ((True, SaleCancelled), snd (use_client_points ?d2 cid (loyalty_points_earned s)))"
    using get assms(2-5) sale_cancel_stored [OF assms(1)]
    by (simp add: cancel_sale_def split_beta Let_def)
  show ?thesis
    using use_client_points_balance [OF cl2 assms(5)] by (simp add: res)
qed

theorem cancel_sale_points_all_or_nothing_witness:
  "map_of (sales ex_db_spent) 1 = Some ex_sale_completed \<and>
   status ex_sale_completed = Completed \<and>
   client_id ex_sale_completed = Some 1 \<and>
   loyalty_points_earned ex_sale_completed = 92 \<and>
   clients ex_db_spent 1 = Some (ex_client\<lparr>loyalty_points := 50\<rparr>) \<and>
   fst (cancel_sale ex_ambient ex_db_spent 1) = (True, SaleCancelled) \<and>
   clients (snd (cancel_sale ex_ambient ex_db_spent 1)) 1 = Some (ex_client\<lparr>loyalty_points := 50\<rparr>) \<and>
   clients ex_db_completed 1 = Some ex_client \<and>
   loyalty_points ex_client = 600 \<and>
   fst (cancel_sale ex_ambient ex_db_completed 1) = (True, SaleCancelled) \<and>
   clients (snd (cancel_sale ex_ambient ex_db_completed 1)) 1 = Some (ex_client\<lparr>loyalty_points := 508\<rparr>)"
proof -
  have h: "map_of (sales ex_db_spent) 1 = Some ex_sale_completed"
    "map_of (sales ex_db_completed) 1 = Some ex_sale_completed"
    "status ex_sale_completed = Completed" "client_id ex_sale_completed = Some 1"
    "(1::nat) \<noteq> 0" "0 < loyalty_points_earned ex_sale_completed"
    "loyalty_points_earned ex_sale_completed = 92"
    "clients ex_db_spent 1 = Some (ex_client\<lparr>loyalty_points := 50\<rparr>)"
    "clients ex_db_completed 1 = Some ex_client" "loyalty_points ex_client = 600"
    by (simp_all add: ex_db_spent_def ex_db_completed_def ex_db_def ex_sale_completed_def
          ex_sale_cancelled_def ex_client_def)
  show ?thesis
    using cancel_sale_points_all_or_nothing [OF h(1) h(3) h(4) h(5) h(6) h(8), of ex_ambient]
      cancel_sale_points_all_or_nothing [OF h(2) h(3) h(4) h(5) h(6) h(9), of ex_ambient] h
    by simp
qed

text \<open>
  The claim as the spec states it (the deduction is clamped, the balance falls to zero)
  fails: with 50 points left and 92 to remove, the cancellation succeeds and the balance
  is still 50, not \<open>50 - min 92 50 = 0\<close>.
\<close>

theorem cancel_sale_points_not_clamped:
  "fst (cancel_sale ex_ambient ex_db_spent 1) = (True, SaleCancelled) \<and>
   map_option loyalty_points (clients (snd (cancel_sale ex_ambient ex_db_spent 1)) 1) = Some 50 \<and>
   map_option loyalty_points (clients (snd (cancel_sale ex_ambient ex_db_spent 1)) 1)
     \<noteq> Some (50 - min 92 50)"
  by (simp add: cancel_sale_def sale_get_by_id_def sale_cancel_def ex_db_spent_def ex_db_def
        ex_sale_completed_def ex_sale_cancelled_def ex_med_def ex_client_def ex_ambient_def
        add_stock_def medicament_get_by_id_def update_stock_def record_movement_def
        use_client_points_def client_get_by_id_def update_loyalty_points_def Let_def)

section \<open>Adding to the cart\<close>

lemma find_item_set_first_quantity:
  "find_item i its = Some it \<Longrightarrow>
   find_item i (set_first_quantity i q its) = Some (it\<lparr>quantity := q\<rparr>)"
  by (induction its) (auto split: if_splits)

lemma find_item_append_new:
  "find_item i its = None \<Longrightarrow>
   find_item i (its @ [x]) = (if med_id (medicament x) = i then Some x else None)"
  by (induction its) (auto split: if_splits)

text \<open>
  C8, as the code has it. For an active medicine with stock \<open>S\<close>, cart quantity \<open>c\<close>
  and a positive requested quantity \<open>q\<close>, \<^verbatim>\<open>add_to_cart\<close> succeeds exactly when
  \<open>c + q \<le> S\<close>, and the cart then holds \<open>c + q\<close> of the medicine. When
  \<open>c + q > S\<close> it fails, the cart is unchanged and the reported amount is
  \<open>max 0 (S - c)\<close>: the remaining addable amount, floored at zero.
\<close>

theorem add_to_cart_stock_bound:
  assumes "medicaments d i = Some m" and "med_is_active m" and "0 < q"
  shows "(current_in_cart i (items c) + q \<le> quantity_in_stock m \<longrightarrow>
            fst (add_to_cart d c i q) = (True, AddedToCart) \<and>
            current_in_cart i (items (snd (add_to_cart d c i q))) = current_in_cart i (items c) + q) \<and>
         (quantity_in_stock m < current_in_cart i (items c) + q \<longrightarrow>
            add_to_cart d c i q =
              ((False, InsufficientStock (max 0 (quantity_in_stock m - current_in_cart i (items c)))), c))"
proof (cases "find_item i (items c)")
  case None
  then show ?thesis
    using assms
    by (simp add: add_to_cart_def medicament_get_by_id_def current_in_cart_def Let_def
          find_item_append_new)
next
  case (Some it)
  then show ?thesis
    using assms
    by (simp add: add_to_cart_def medicament_get_by_id_def current_in_cart_def Let_def
          find_item_set_first_quantity)
qed

theorem add_to_cart_stock_bound_witness:
  "medicaments ex_db 1 = Some ex_med \<and> med_is_active ex_med \<and>
   quantity_in_stock ex_med = 20 \<and> current_in_cart 1 (items ex_cart) = 1 \<and>
   fst (add_to_cart ex_db ex_cart 1 19) = (True, AddedToCart) \<and>
   current_in_cart 1 (items (snd (add_to_cart ex_db ex_cart 1 19))) = 20 \<and>
   add_to_cart ex_db ex_cart 1 20 = ((False, InsufficientStock 19), ex_cart)"
proof -
  have h: "medicaments ex_db 1 = Some ex_med" "med_is_active ex_med"
    "quantity_in_stock ex_med = 20" "current_in_cart 1 (items ex_cart) = 1"
    by (simp_all add: ex_db_def ex_med_def ex_cart_def current_in_cart_def)
  have "(0::int) < 19" "(0::int) < 20" by simp_all
  then show ?thesis
    using add_to_cart_stock_bound [OF h(1) h(2), of 19 ex_cart]
      add_to_cart_stock_bound [OF h(1) h(2), of 20 ex_cart] h
    by simp
qed

text \<open>
  The claim as the spec states it (the failure reports \<open>S - c\<close>) fails when the stock
  has fallen below the quantity already in the cart: with \<open>S = 1\<close>, \<open>c = 2\<close> and
  \<open>q = 1\<close> the reported amount is 0, not \<open>S - c = -1\<close>.
\<close>

theorem add_to_cart_reports_floor_zero:
  "medicaments ex_db_low 1 = Some (ex_med\<lparr>quantity_in_stock := 1\<rparr>) \<and>
   current_in_cart 1 (items ex_cart_two) = 2 \<and>
   add_to_cart ex_db_low ex_cart_two 1 1 = ((False, InsufficientStock 0), ex_cart_two) \<and>
   InsufficientStock 0 \<noteq> InsufficientStock (1 - 2)"
  by (simp add: add_to_cart_def medicament_get_by_id_def current_in_cart_def Let_def
        ex_db_low_def ex_db_def ex_med_def ex_cart_two_def)

section \<open>Rounding to hundredths\<close>


lemma is_centsE:
  assumes "is_cents x"
  shows "x = of_int \<lfloor>x * 100\<rfloor> / 100"
proof -
  have e: "of_int \<lfloor>x * 100\<rfloor> = x * 100"
    using assms unfolding is_cents_def .
  have "of_int \<lfloor>x * 100\<rfloor> / 100 = x * 100 / 100"
    by (simp only: e)
  also have "\<dots> = x" by simp
  finally show ?thesis by (rule sym)
qed

lemma floor_add_half: "\<lfloor>(of_int k :: rat) + 1 / 2\<rfloor> = k"
  by (simp add: floor_unique)

lemma round_currency_of_int: "round_currency (of_int k / 100) = of_int k / 100"
proof (cases "0 \<le> k")
  case True
  then show ?thesis by (simp add: round_currency_def floor_add_half)
next
  case False
  have "\<lfloor>(of_int (- k) :: rat) + 1 / 2\<rfloor> = - k" by (rule floor_add_half)
  then have "\<lfloor>- (of_int k :: rat) + 1 / 2\<rfloor> = - k" by simp
  with False show ?thesis by (simp add: round_currency_def)
qed


lemma round_currency_idem: "is_cents x \<Longrightarrow> round_currency x = x"
  using round_currency_of_int [of "\<lfloor>x * 100\<rfloor>"] is_centsE [of x] by simp


lemma is_cents_round_currency [simp]: "is_cents (round_currency x)"
  by (simp add: round_currency_def is_cents_def)

lemma is_cents_py_round2 [simp]: "is_cents (py_round2 x)"
  by (simp add: py_round2_def Let_def is_cents_def)



lemma floor_rat_divide_numeral [simp]:
  "\<lfloor>numeral a / numeral b :: rat\<rfloor> = numeral a div numeral b"
  using floor_divide_of_int_eq [of "numeral a" "numeral b", where ?'a = rat] by simp

lemma floor_rat_one_divide_numeral [simp]:
  "\<lfloor>1 / numeral b :: rat\<rfloor> = 1 div numeral b"
  using floor_divide_of_int_eq [of 1 "numeral b", where ?'a = rat] by simp

lemma floor_rat_minus_divide_numeral [simp]:
  "\<lfloor>- (numeral a / numeral b) :: rat\<rfloor> = - numeral a div numeral b"
  using floor_divide_of_int_eq [of "- numeral a" "numeral b", where ?'a = rat] by simp

section \<open>Projected points of the totals\<close>

lemma is_cents_cart_subtotal [simp]: "is_cents (cart_subtotal c)"
  by (simp add: cart_subtotal_def)

lemma is_cents_apply_discount:
  "is_cents amount \<Longrightarrow> is_cents (fst (apply_discount d amount cl))"
  by (simp add: apply_discount_def Let_def split: option.splits)

lemma calculate_totals_client:
  assumes "cart_client c = Some cl"
  shows "t_total (calculate_totals a d c) = fst (apply_discount d (cart_subtotal c) (Some cl))"
    and "t_points_earned (calculate_totals a d c) =
           calculate_points_earned a (t_total (calculate_totals a d c))"
    and "t_discount_percentage (calculate_totals a d c) =
           fst (snd (apply_discount d (cart_subtotal c) (Some cl)))"
    and "t_discount_amount (calculate_totals a d c) =
           snd (snd (apply_discount d (cart_subtotal c) (Some cl)))"
    and "t_subtotal (calculate_totals a d c) = cart_subtotal c"
  using assms is_cents_apply_discount [of "cart_subtotal c" d "Some cl"]
  by (simp_all add: calculate_totals_def Let_def split_beta round_currency_idem)

lemma calculate_totals_anonymous:
  assumes "cart_client c = None"
  shows "t_total (calculate_totals a d c) = cart_subtotal c"
    and "t_points_earned (calculate_totals a d c) = 0"
    and "t_discount_percentage (calculate_totals a d c) = 0"
    and "t_discount_amount (calculate_totals a d c) = 0"
    and "t_subtotal (calculate_totals a d c) = cart_subtotal c"
  using assms by (simp_all add: calculate_totals_def Let_def round_currency_idem)

text \<open>
  C9, as the code has it. With an attached customer, the projected points of
  \<^verbatim>\<open>calculate_totals\<close> are those of the loyalty engine on the final total after discount:
  \<open>\<lfloor>total / points_per_unit\<rfloor>\<close>, and 0 when the total or the configured constant is
  not positive. Without a customer the projected points are 0, whatever the total.
\<close>

theorem calculate_totals_points:
  "(cart_client c \<noteq> None \<longrightarrow>
      t_total (calculate_totals a d c) = fst (apply_discount d (cart_subtotal c) (cart_client c)) \<and>
      t_points_earned (calculate_totals a d c) =
        (if t_total (calculate_totals a d c) \<le> 0 \<or> points_per_unit a \<le> 0 then 0
         else \<lfloor>t_total (calculate_totals a d c) / points_per_unit a\<rfloor>)) \<and>
   (cart_client c = None \<longrightarrow> t_points_earned (calculate_totals a d c) = 0)"
proof (cases "cart_client c")
  case None
  then show ?thesis by (simp add: calculate_totals_anonymous)
next
  case (Some cl)
  show ?thesis
    using calculate_totals_client(1,2) [OF Some, of a d] Some
    by (simp add: calculate_points_earned_def)
qed

lemma ex_cart_subtotal: "cart_subtotal ex_cart = 1000"
  by (simp add: cart_subtotal_def line_total_def ex_cart_def round_currency_def)

lemma ex_cart_discount: "apply_discount ex_db 1000 (Some ex_client) = (920, 8, 80)"
  by (simp add: apply_discount_def get_client_discount_def get_tier_for_points_def ex_db_def
        ex_tiers_def ex_client_def py_round2_def Let_def)

theorem calculate_totals_points_witness:
  "cart_client ex_cart \<noteq> None \<and> cart_client ex_cart_anonymous = None \<and>
   t_total (calculate_totals ex_ambient ex_db ex_cart) = 920 \<and>
   t_points_earned (calculate_totals ex_ambient ex_db ex_cart) = 92 \<and>
   t_points_earned (calculate_totals ex_ambient ex_db ex_cart_anonymous) = 0"
proof -
  have h: "cart_client ex_cart = Some ex_client" "cart_client ex_cart_anonymous = None"
    "points_per_unit ex_ambient = 10"
    by (simp_all add: ex_cart_def ex_cart_anonymous_def ex_ambient_def)
  show ?thesis
    using calculate_totals_points [of ex_cart ex_ambient ex_db]
      calculate_totals_points [of ex_cart_anonymous ex_ambient ex_db]
    by (simp add: h ex_cart_subtotal ex_cart_discount)
qed

text \<open>
  The claim as the spec states it (with or without an attached customer) fails for a
  cart without a customer: the total is 1000, \<open>\<lfloor>1000 / 10\<rfloor> = 100\<close>, and the projected
  points are 0.
\<close>

theorem calculate_totals_no_points_without_client:
  "cart_client ex_cart_anonymous = None \<and>
   t_total (calculate_totals ex_ambient ex_db ex_cart_anonymous) = 1000 \<and>
   points_per_unit ex_ambient = 10 \<and>
   t_points_earned (calculate_totals ex_ambient ex_db ex_cart_anonymous) = 0 \<and>
   t_points_earned (calculate_totals ex_ambient ex_db ex_cart_anonymous)
     \<noteq> \<lfloor>t_total (calculate_totals ex_ambient ex_db ex_cart_anonymous) / points_per_unit ex_ambient\<rfloor>"
  by (simp add: calculate_totals_def cart_subtotal_def line_total_def round_currency_def
        items_count_def ex_cart_anonymous_def ex_cart_def ex_ambient_def Let_def)

section \<open>What a successful commit does\<close>

lemma fold_max_ge: "m \<le> fold max xs (m::nat)"
  by (induction xs arbitrary: m) (auto intro: order_trans [OF max.cobounded2])

lemma fold_max_upper: "x \<in> set xs \<Longrightarrow> x \<le> fold max xs (m::nat)"
proof (induction xs arbitrary: m)
  case Nil
  then show ?case by simp
next
  case (Cons y ys)
  show ?case
  proof (cases "x = y")
    case True
    have "y \<le> max y m" by simp
    also have "\<dots> \<le> fold max ys (max y m)" by (rule fold_max_ge)
    finally show ?thesis using True by simp
  next
    case False
    with Cons show ?thesis by simp
  qed
qed

lemma sale_create_fresh: "map_of (sales d) (fst (sale_create d s)) = None"
proof -
  have "Suc (fold max (map fst (sales d)) 0) \<notin> set (map fst (sales d))"
    using fold_max_upper [of "Suc (fold max (map fst (sales d)) 0)" "map fst (sales d)" 0]
    by auto
  then show ?thesis
    by (simp add: sale_create_def Let_def map_of_eq_None_iff)
qed

lemma sale_create_stored:
  "map_of (sales (snd (sale_create d s))) (fst (sale_create d s)) = Some s"
  using sale_create_fresh [of d s]
  by (simp add: sale_create_def Let_def map_add_Some_iff)

lemma sales_update_stock [simp]: "sales (snd (update_stock d i q)) = sales d"
  by (simp add: update_stock_def split: option.splits)

lemma sales_remove_stock [simp]: "sales (snd (remove_stock a d i q r ref)) = sales d"
  by (simp add: remove_stock_def Let_def split_beta split: option.splits)

lemma sales_remove_stock_all [simp]: "sales (remove_stock_all a sid its d) = sales d"
  by (induction its arbitrary: d) simp_all

lemma sales_update_loyalty_points [simp]: "sales (snd (update_loyalty_points d i p)) = sales d"
  by (simp add: update_loyalty_points_def split: option.splits)

lemma sales_update_total_spent [simp]: "sales (snd (update_total_spent d i x)) = sales d"
  by (simp add: update_total_spent_def split: option.splits)

lemma sales_add_points_to_client [simp]: "sales (snd (add_points_to_client a d i x)) = sales d"
  by (simp add: add_points_to_client_def Let_def split_beta split: option.splits)

lemma validate_sale_success:
  assumes "validate_sale a d c = ((True, msg, Some (sid, s)), d', c')"
  obtains uid where "current_user a = Some uid" and "items c \<noteq> []"
    and "first_unavailable d (items c) = None"
    and "\<not> sale_init_raises uid (calculate_totals a d c)"
    and "\<not> list_ex sale_line_init_raises (items c)"
    and "s = make_sale a d c uid (calculate_totals a d c)"
    and "sid = fst (sale_create d s)"
    and "d' = committed a d c uid" and "c' = cart_clear c" and "msg = SaleRecorded"
  using assms
  by (auto simp: validate_sale_def committed_def Let_def split_beta
        split: if_splits option.splits)

lemma sales_committed:
  "sales (committed a d c uid) =
   sales (snd (sale_create d (make_sale a d c uid (calculate_totals a d c))))"
  by (simp add: committed_def Let_def split: option.splits)

section \<open>Monetary fields of a committed sale\<close>


lemma py_round2_zero [simp]: "py_round2 0 = 0"
  by (simp add: py_round2_def)





lemma ex_validate_sale:
  "fst (validate_sale ex_ambient ex_db ex_cart) = (True, SaleRecorded, Some (1, ex_sale_completed))"
  by (simp add: validate_sale_def split_beta Let_def ex_ambient_def ex_cart_def ex_db_def
        ex_med_def ex_client_def ex_tiers_def ex_sale_completed_def ex_sale_cancelled_def
        check_stock_availability_def medicament_get_by_id_def
        calculate_totals_def cart_subtotal_def line_total_def round_currency_def items_count_def
        apply_discount_def get_client_discount_def get_tier_for_points_def py_round2_def
        calculate_points_earned_def sale_init_raises_def sale_line_init_raises_def
        make_sale_def make_line_def generate_sale_number_def sale_create_def)



section \<open>Stock across commit and cancellation\<close>

lemma find_item_None_iff:
  "find_item i its = None \<longleftrightarrow> i \<notin> set (map (\<lambda>it. med_id (medicament it)) its)"
  by (induction its) auto

lemma find_item_Some:
  "find_item i its = Some it \<Longrightarrow> it \<in> set its \<and> med_id (medicament it) = i"
  by (induction its) (auto split: if_splits)

lemma find_line_None_iff:
  "find_line i ls = None \<longleftrightarrow> i \<notin> set (map line_medicament_id ls)"
  by (induction ls) auto

lemma find_line_Some:
  "find_line i ls = Some l \<Longrightarrow> l \<in> set ls \<and> line_medicament_id l = i"
  by (induction ls) (auto split: if_splits)

lemma find_line_make_line:
  "find_line i (map make_line its) = map_option make_line (find_item i its)"
  by (induction its) (simp_all add: make_line_def)

lemma remove_stock_medicaments:
  assumes "medicaments d i = Some m" and "0 < q" and "q \<le> quantity_in_stock m"
  shows "medicaments (snd (remove_stock a d i q r ref)) =
         (medicaments d)(i \<mapsto> m\<lparr>quantity_in_stock := quantity_in_stock m - q\<rparr>)"
  using assms
  by (simp add: remove_stock_def medicament_get_by_id_def update_stock_def)

lemma add_stock_medicaments:
  assumes "medicaments d i = Some m" and "0 < q" and "0 \<le> quantity_in_stock m"
  shows "medicaments (snd (add_stock a d i q r)) =
         (medicaments d)(i \<mapsto> m\<lparr>quantity_in_stock := quantity_in_stock m + q\<rparr>)"
  using assms
  by (simp add: add_stock_def medicament_get_by_id_def update_stock_def)

lemma remove_stock_all_medicaments:
  assumes "distinct (map (\<lambda>it. med_id (medicament it)) its)"
    and "\<forall>it \<in> set its. 0 < quantity it \<and>
           (\<exists>m. medicaments d (med_id (medicament it)) = Some m \<and> quantity it \<le> quantity_in_stock m)"
  shows "medicaments (remove_stock_all a sid its d) i =
         (case find_item i its of
            None \<Rightarrow> medicaments d i
          | Some it \<Rightarrow> map_option (\<lambda>m. m\<lparr>quantity_in_stock := quantity_in_stock m - quantity it\<rparr>)
                         (medicaments d i))"
  using assms
proof (induction its arbitrary: d)
  case Nil
  then show ?case by simp
next
  case (Cons it its)
  let ?i0 = "med_id (medicament it)"
  from Cons.prems(2) obtain m where m: "medicaments d ?i0 = Some m"
    and q: "0 < quantity it" "quantity it \<le> quantity_in_stock m"
    by auto
  let ?d1 = "snd (remove_stock a d ?i0 (quantity it) SaleReason (Some sid))"
  have d1: "medicaments ?d1 =
      (medicaments d)(?i0 \<mapsto> m\<lparr>quantity_in_stock := quantity_in_stock m - quantity it\<rparr>)"
    using m q by (rule remove_stock_medicaments)
  have notin: "?i0 \<notin> set (map (\<lambda>it. med_id (medicament it)) its)"
    using Cons.prems(1) by simp
  have dist: "distinct (map (\<lambda>it. med_id (medicament it)) its)"
    using Cons.prems(1) by simp
  have rest: "\<forall>it' \<in> set its. 0 < quantity it' \<and>
           (\<exists>m. medicaments ?d1 (med_id (medicament it')) = Some m \<and> quantity it' \<le> quantity_in_stock m)"
  proof
    fix it' assume in': "it' \<in> set its"
    then have "med_id (medicament it') \<noteq> ?i0" using notin by (metis (no_types, lifting) image_eqI set_map)
    then have "medicaments ?d1 (med_id (medicament it')) = medicaments d (med_id (medicament it'))"
      by (simp add: d1)
    then show "0 < quantity it' \<and>
           (\<exists>m. medicaments ?d1 (med_id (medicament it')) = Some m \<and> quantity it' \<le> quantity_in_stock m)"
      using Cons.prems(2) in' by simp
  qed
  note IH = Cons.IH [OF dist rest]
  show ?case
  proof (cases "i = ?i0")
    case True
    then have "find_item i its = None" using notin by (simp add: find_item_None_iff)
    then show ?thesis using True IH m by (simp add: d1)
  next
    case False
    then show ?thesis using IH by (simp add: d1 split: option.splits)
  qed
qed

lemma add_stock_all_medicaments:
  assumes "distinct (map line_medicament_id ls)"
    and "\<forall>l \<in> set ls. 0 < line_quantity l \<and>
           (\<exists>m. medicaments d (line_medicament_id l) = Some m \<and> 0 \<le> quantity_in_stock m)"
  shows "medicaments (add_stock_all a num ls d) i =
         (case find_line i ls of
            None \<Rightarrow> medicaments d i
          | Some l \<Rightarrow> map_option (\<lambda>m. m\<lparr>quantity_in_stock := quantity_in_stock m + line_quantity l\<rparr>)
                        (medicaments d i))"
  using assms
proof (induction ls arbitrary: d)
  case Nil
  then show ?case by simp
next
  case (Cons l ls)
  let ?i0 = "line_medicament_id l"
  from Cons.prems(2) obtain m where m: "medicaments d ?i0 = Some m"
    and q: "0 < line_quantity l" "0 \<le> quantity_in_stock m"
    by auto
  let ?d1 = "snd (add_stock a d ?i0 (line_quantity l) (CancelReason num))"
  have d1: "medicaments ?d1 =
      (medicaments d)(?i0 \<mapsto> m\<lparr>quantity_in_stock := quantity_in_stock m + line_quantity l\<rparr>)"
    using m q by (rule add_stock_medicaments)
  have notin: "?i0 \<notin> set (map line_medicament_id ls)"
    using Cons.prems(1) by simp
  have dist: "distinct (map line_medicament_id ls)"
    using Cons.prems(1) by simp
  have rest: "\<forall>l' \<in> set ls. 0 < line_quantity l' \<and>
           (\<exists>m. medicaments ?d1 (line_medicament_id l') = Some m \<and> 0 \<le> quantity_in_stock m)"
  proof
    fix l' assume in': "l' \<in> set ls"
    then have "line_medicament_id l' \<noteq> ?i0" using notin by (metis image_eqI set_map)
    then have "medicaments ?d1 (line_medicament_id l') = medicaments d (line_medicament_id l')"
      by (simp add: d1)
    then show "0 < line_quantity l' \<and>
           (\<exists>m. medicaments ?d1 (line_medicament_id l') = Some m \<and> 0 \<le> quantity_in_stock m)"
      using Cons.prems(2) in' by simp
  qed
  note IH = Cons.IH [OF dist rest]
  show ?case
  proof (cases "i = ?i0")
    case True
    then have "find_line i ls = None" using notin by (simp add: find_line_None_iff)
    then show ?thesis using True IH m by (simp add: d1)
  next
    case False
    then show ?thesis using IH by (simp add: d1 split: option.splits)
  qed
qed

lemma find_item_distinct:
  "distinct (map (\<lambda>it. med_id (medicament it)) its) \<Longrightarrow> it \<in> set its \<Longrightarrow>
   find_item (med_id (medicament it)) its = Some it"
  by (induction its) (auto simp: rev_image_eqI)

lemma validate_sale_stored:
  assumes "validate_sale a d c = ((True, msg, Some (sid, s)), d', c')"
  shows "map_of (sales d') sid = Some s" and "status s = Completed"
    and "lines s = map make_line (items c)"
    and "client_id s = map_option client_ident (cart_client c)"
    and "loyalty_points_earned s = t_points_earned (calculate_totals a d c)"
    and "total s = t_total (calculate_totals a d c)"
proof -
  from assms obtain uid where s: "s = make_sale a d c uid (calculate_totals a d c)"
    and sid: "sid = fst (sale_create d s)" and d': "d' = committed a d c uid"
    by (rule validate_sale_success)
  show "map_of (sales d') sid = Some s"
    using sale_create_stored [of d s] by (simp add: d' sid sales_committed s)
  show "status s = Completed" "lines s = map make_line (items c)"
    "client_id s = map_option client_ident (cart_client c)"
    "loyalty_points_earned s = t_points_earned (calculate_totals a d c)"
    "total s = t_total (calculate_totals a d c)"
    by (simp_all add: s make_sale_def)
qed

lemma medicaments_committed:
  "medicaments (committed a d c uid) =
   medicaments (remove_stock_all a (fst (sale_create d (make_sale a d c uid (calculate_totals a d c))))
     (items c) (snd (sale_create d (make_sale a d c uid (calculate_totals a d c)))))"
  by (simp add: committed_def Let_def split: option.splits)

text \<open>The store a cancellation of a stored, completed sale ends in.\<close>

lemma cancel_sale_completed:
  assumes "map_of (sales d) sid = Some s" and "status s = Completed"
  shows "fst (cancel_sale a d sid) = (True, SaleCancelled)"
    and "medicaments (snd (cancel_sale a d sid)) =
         medicaments (add_stock_all a (sale_number s)
           (filter (\<lambda>l. medicaments d (line_medicament_id l) \<noteq> None) (lines s))
           (snd (sale_cancel d sid)))"
    and "clients (snd (cancel_sale a d sid)) =
         (case client_id s of
            None \<Rightarrow> clients d
          | Some cid \<Rightarrow>
              if cid \<noteq> 0 \<and> 0 < loyalty_points_earned s
              then clients (snd (use_client_points
                     (add_stock_all a (sale_number s)
                        (filter (\<lambda>l. medicaments d (line_medicament_id l) \<noteq> None) (lines s))
                        (snd (sale_cancel d sid)))
                     cid (loyalty_points_earned s)))
              else clients d)"
  using assms sale_cancel_stored [OF assms(1)]
  by (simp_all add: cancel_sale_def sale_get_by_id_def split_beta Let_def split: option.splits)

lemma committed_stock:
  assumes dist: "distinct (map (\<lambda>it. med_id (medicament it)) (items c))"
    and avail: "first_unavailable d (items c) = None"
    and lines_ok: "\<not> list_ex sale_line_init_raises (items c)"
  shows "medicaments (committed a d c uid) i =
         (case find_item i (items c) of
            None \<Rightarrow> medicaments d i
          | Some it \<Rightarrow> map_option (\<lambda>m. m\<lparr>quantity_in_stock := quantity_in_stock m - quantity it\<rparr>)
                         (medicaments d i))"
    and "\<forall>it \<in> set (items c). 0 < quantity it \<and>
           (\<exists>m. medicaments d (med_id (medicament it)) = Some m \<and> quantity it \<le> quantity_in_stock m)"
proof -
  show pre: "\<forall>it \<in> set (items c). 0 < quantity it \<and>
           (\<exists>m. medicaments d (med_id (medicament it)) = Some m \<and> quantity it \<le> quantity_in_stock m)"
  proof
    fix it assume it: "it \<in> set (items c)"
    have "fst (check_stock_availability d (med_id (medicament it)) (quantity it))"
      using avail it by (simp add: first_unavailable_None_iff)
    then have "\<exists>m. medicaments d (med_id (medicament it)) = Some m \<and> quantity it \<le> quantity_in_stock m"
      by (auto simp: check_stock_availability_def medicament_get_by_id_def split: option.splits)
    moreover have "0 < quantity it"
      using lines_ok it by (auto simp: list_ex_iff sale_line_init_raises_def)
    ultimately show "0 < quantity it \<and>
           (\<exists>m. medicaments d (med_id (medicament it)) = Some m \<and> quantity it \<le> quantity_in_stock m)"
      by simp
  qed
  let ?s = "make_sale a d c uid (calculate_totals a d c)"
  have pre': "\<forall>it \<in> set (items c). 0 < quantity it \<and>
           (\<exists>m. medicaments (snd (sale_create d ?s)) (med_id (medicament it)) = Some m \<and>
                quantity it \<le> quantity_in_stock m)"
    using pre by simp
  show "medicaments (committed a d c uid) i =
         (case find_item i (items c) of
            None \<Rightarrow> medicaments d i
          | Some it \<Rightarrow> map_option (\<lambda>m. m\<lparr>quantity_in_stock := quantity_in_stock m - quantity it\<rparr>)
                         (medicaments d i))"
    using remove_stock_all_medicaments [OF dist pre', of a "fst (sale_create d ?s)" i]
    by (simp add: medicaments_committed split: option.splits)
qed

text \<open>The cart operations keep at most one line per medicine, from the empty cart on.\<close>

lemma ids_set_first_quantity [simp]:
  "map (\<lambda>it. med_id (medicament it)) (set_first_quantity i q its) =
   map (\<lambda>it. med_id (medicament it)) its"
  by (induction its) auto

lemma ids_remove_first:
  "distinct (map (\<lambda>it. med_id (medicament it)) its) \<Longrightarrow>
   distinct (map (\<lambda>it. med_id (medicament it)) (remove_first i its))"
proof (induction its)
  case Nil
  then show ?case by simp
next
  case (Cons it its)
  have sub: "set (remove_first i its) \<subseteq> set its" for its
    by (induction its) auto
  from Cons show ?case using sub [of its] by auto
qed

lemma cart_distinct_operations:
  "cart_distinct \<lparr>items = [], cart_client = None\<rparr>"
  "cart_distinct c \<Longrightarrow> cart_distinct (snd (add_to_cart d c i q))"
  "cart_distinct c \<Longrightarrow> cart_distinct (snd (remove_from_cart c i))"
  "cart_distinct c \<Longrightarrow> cart_distinct (snd (update_cart_quantity c i q))"
  "cart_distinct c \<Longrightarrow> cart_distinct (snd (set_client d c cid))"
proof -
  show "cart_distinct \<lparr>items = [], cart_client = None\<rparr>"
    by (simp add: cart_distinct_def)
  show r: "cart_distinct (snd (remove_from_cart c i))" if "cart_distinct c" for c i
    using that by (simp add: cart_distinct_def remove_from_cart_def ids_remove_first split: option.splits)
  show "cart_distinct (snd (add_to_cart d c i q))" if "cart_distinct c"
    using that
    by (auto simp: cart_distinct_def add_to_cart_def medicament_get_by_id_def Let_def
          find_item_None_iff split: option.splits)
  show "cart_distinct (snd (update_cart_quantity c i q))" if "cart_distinct c"
    using that r [OF that, of i]
    by (simp add: cart_distinct_def update_cart_quantity_def split: option.splits)
  show "cart_distinct (snd (set_client d c cid))" if "cart_distinct c"
    using that by (simp add: cart_distinct_def set_client_def split: option.splits)
qed

text \<open>
  C3. A successful \<^verbatim>\<open>validate_sale\<close> on a cart with one line per medicine (what the cart
  operations build) takes exactly the line quantity off the stock of each line's medicine.
  Cancelling that sale then succeeds and puts every medicine back to its level before the
  commit: the medicines table after commit and cancellation is the one before the commit.
\<close>

theorem commit_then_cancel_restores_stock:
  assumes ok: "validate_sale a d c = ((True, msg, Some (sid, s)), d', c')"
    and dist: "cart_distinct c"
  shows "(\<forall>it \<in> set (items c). \<exists>m.
            medicaments d (med_id (medicament it)) = Some m \<and>
            medicaments d' (med_id (medicament it)) =
              Some (m\<lparr>quantity_in_stock := quantity_in_stock m - quantity it\<rparr>)) \<and>
         fst (cancel_sale a2 d' sid) = (True, SaleCancelled) \<and>
         medicaments (snd (cancel_sale a2 d' sid)) = medicaments d"
proof -
  let ?ids = "map (\<lambda>it. med_id (medicament it)) (items c)"
  have dist': "distinct ?ids" using dist by (simp add: cart_distinct_def)
  from ok obtain uid where avail: "first_unavailable d (items c) = None"
    and lines_ok: "\<not> list_ex sale_line_init_raises (items c)"
    and d': "d' = committed a d c uid"
    by (rule validate_sale_success)
  note after = committed_stock(1) [OF dist' avail lines_ok, of a uid, folded d']
  note pre = committed_stock(2) [OF dist' avail lines_ok]
  note st = validate_sale_stored [OF ok]
  have commit: "\<forall>it \<in> set (items c). \<exists>m.
            medicaments d (med_id (medicament it)) = Some m \<and>
            medicaments d' (med_id (medicament it)) =
              Some (m\<lparr>quantity_in_stock := quantity_in_stock m - quantity it\<rparr>)"
  proof
    fix it assume it: "it \<in> set (items c)"
    from pre it obtain m where m: "medicaments d (med_id (medicament it)) = Some m" by blast
    have "find_item (med_id (medicament it)) (items c) = Some it"
      using dist' it by (rule find_item_distinct)
    then have "medicaments d' (med_id (medicament it)) =
              Some (m\<lparr>quantity_in_stock := quantity_in_stock m - quantity it\<rparr>)"
      using after [of "med_id (medicament it)"] m by simp
    with m show "\<exists>m. medicaments d (med_id (medicament it)) = Some m \<and>
            medicaments d' (med_id (medicament it)) =
              Some (m\<lparr>quantity_in_stock := quantity_in_stock m - quantity it\<rparr>)"
      by blast
  qed
  have keep: "filter (\<lambda>l. medicaments d' (line_medicament_id l) \<noteq> None) (lines s) = lines s"
    using commit by (auto simp: st(3) filter_id_conv make_line_def)
  let ?d1 = "snd (sale_cancel d' sid)"
  have ldist: "distinct (map line_medicament_id (lines s))"
    using dist' by (simp add: st(3) make_line_def comp_def)
  have lpre: "\<forall>l \<in> set (lines s). 0 < line_quantity l \<and>
           (\<exists>m. medicaments ?d1 (line_medicament_id l) = Some m \<and> 0 \<le> quantity_in_stock m)"
  proof
    fix l assume "l \<in> set (lines s)"
    then obtain it where it: "it \<in> set (items c)" and l: "l = make_line it"
      by (auto simp: st(3))
    from commit it obtain m where m: "medicaments d (med_id (medicament it)) = Some m"
      and m': "medicaments d' (med_id (medicament it)) =
              Some (m\<lparr>quantity_in_stock := quantity_in_stock m - quantity it\<rparr>)"
      by blast
    from pre it m have "0 < quantity it" "quantity it \<le> quantity_in_stock m" by auto
    then show "0 < line_quantity l \<and>
           (\<exists>m. medicaments ?d1 (line_medicament_id l) = Some m \<and> 0 \<le> quantity_in_stock m)"
      using m' by (simp add: l make_line_def)
  qed
  have restored: "medicaments (snd (cancel_sale a2 d' sid)) i = medicaments d i" for i
  proof -
    have "medicaments (snd (cancel_sale a2 d' sid)) i =
          medicaments (add_stock_all a2 (sale_number s) (lines s) ?d1) i"
      by (simp only: cancel_sale_completed(2) [OF st(1) st(2)] keep)
    also have "\<dots> =
          (case find_line i (lines s) of
             None \<Rightarrow> medicaments d' i
           | Some l \<Rightarrow> map_option (\<lambda>m. m\<lparr>quantity_in_stock := quantity_in_stock m + line_quantity l\<rparr>)
                         (medicaments d' i))"
      using add_stock_all_medicaments [OF ldist lpre, of a2 "sale_number s" i]
      by (simp split: option.splits)
    finally show ?thesis
      using after [of i]
      by (cases "medicaments d i")
         (simp_all add: st(3) find_line_make_line make_line_def split: option.splits)
  qed
  show ?thesis
    using commit cancel_sale_completed(1) [OF st(1) st(2), of a2] restored by blast
qed

theorem commit_then_cancel_restores_stock_witness:
  "fst (validate_sale ex_ambient ex_db ex_cart) = (True, SaleRecorded, Some (1, ex_sale_completed)) \<and>
   cart_distinct ex_cart \<and>
   map_option quantity_in_stock (medicaments ex_db 1) = Some 20 \<and>
   map_option quantity_in_stock (medicaments (fst (snd (validate_sale ex_ambient ex_db ex_cart))) 1) = Some 19 \<and>
   fst (cancel_sale ex_ambient (fst (snd (validate_sale ex_ambient ex_db ex_cart))) 1) = (True, SaleCancelled) \<and>
   medicaments (snd (cancel_sale ex_ambient (fst (snd (validate_sale ex_ambient ex_db ex_cart))) 1)) =
     medicaments ex_db"
proof -
  have e: "validate_sale ex_ambient ex_db ex_cart =
      ((True, SaleRecorded, Some (1, ex_sale_completed)),
       fst (snd (validate_sale ex_ambient ex_db ex_cart)),
       snd (snd (validate_sale ex_ambient ex_db ex_cart)))"
    using ex_validate_sale by (simp add: prod_eq_iff)
  have dist: "cart_distinct ex_cart"
    by (simp add: cart_distinct_def ex_cart_def)
  have m: "medicaments ex_db 1 = Some ex_med" "quantity_in_stock ex_med = 20"
    "items ex_cart = [\<lparr>medicament = ex_med, quantity = 1, unit_price = 1000\<rparr>]"
    "med_id ex_med = 1"
    by (simp_all add: ex_db_def ex_med_def ex_cart_def)
  show ?thesis
    using commit_then_cancel_restores_stock [OF e dist, of ex_ambient] ex_validate_sale dist m
    by simp
qed

section \<open>Points credited at commit\<close>

lemma calculate_points_earned_nonneg: "0 \<le> calculate_points_earned a x"
  by (simp add: calculate_points_earned_def)

lemma add_points_to_client_balance:
  assumes "clients d cid = Some row" and "0 \<le> loyalty_points row"
  shows "clients (snd (add_points_to_client a d cid x)) cid =
         Some (row\<lparr>loyalty_points := loyalty_points row + calculate_points_earned a x\<rparr>)"
proof (cases "0 < calculate_points_earned a x")
  case True
  then show ?thesis
    using assms
    by (simp add: add_points_to_client_def client_get_by_id_def update_loyalty_points_def Let_def)
next
  case False
  then have "calculate_points_earned a x = 0"
    using calculate_points_earned_nonneg [of a x] by simp
  then show ?thesis
    using assms by (simp add: add_points_to_client_def client_get_by_id_def Let_def)
qed

lemma update_total_spent_row:
  "clients d cid = Some row \<Longrightarrow>
   clients (snd (update_total_spent d cid x)) cid = Some (row\<lparr>total_spent := total_spent row + x\<rparr>)"
  by (simp add: update_total_spent_def)

lemma clients_committed:
  assumes "cart_client c = Some cl"
  shows "clients (committed a d c uid) (client_ident cl) =
         clients (snd (update_total_spent
                    (snd (add_points_to_client a
                            (remove_stock_all a
                               (fst (sale_create d (make_sale a d c uid (calculate_totals a d c))))
                               (items c)
                               (snd (sale_create d (make_sale a d c uid (calculate_totals a d c)))))
                            (client_ident cl) (t_total (calculate_totals a d c))))
                    (client_ident cl) (t_total (calculate_totals a d c))))
           (client_ident cl)"
  using assms by (simp add: committed_def Let_def)

text \<open>
  C10. For a successful commit with an attached customer (a stored customer whose balance
  is not negative), the points recorded on the sale are those of the loyalty engine on the
  sale's total, and the customer's balance grows by exactly that number. Cancelling the
  sale then succeeds and brings the balance back to what it was before the commit.
\<close>

theorem commit_credits_recorded_points:
  assumes ok: "validate_sale a d c = ((True, msg, Some (sid, s)), d', c')"
    and cl: "cart_client c = Some cl"
    and row: "clients d (client_ident cl) = Some row"
    and nn: "0 \<le> loyalty_points row"
  shows "loyalty_points_earned s = calculate_points_earned a (total s) \<and>
         map_option loyalty_points (clients d' (client_ident cl)) =
           Some (loyalty_points row + loyalty_points_earned s) \<and>
         (client_ident cl \<noteq> 0 \<longrightarrow>
            fst (cancel_sale a2 d' sid) = (True, SaleCancelled) \<and>
            map_option loyalty_points (clients (snd (cancel_sale a2 d' sid)) (client_ident cl)) =
              Some (loyalty_points row))"
proof -
  let ?t = "calculate_totals a d c"
  let ?cid = "client_ident cl"
  from ok obtain uid where d': "d' = committed a d c uid"
    by (rule validate_sale_success)
  note st = validate_sale_stored [OF ok]
  have earned: "loyalty_points_earned s = calculate_points_earned a (total s)"
    using calculate_totals_client(2) [OF cl, of a d] by (simp add: st(5) st(6))
  let ?d2 = "remove_stock_all a (fst (sale_create d (make_sale a d c uid ?t))) (items c)
               (snd (sale_create d (make_sale a d c uid ?t)))"
  have r2: "clients ?d2 ?cid = Some row" using row by simp
  let ?row1 = "row\<lparr>loyalty_points := loyalty_points row + calculate_points_earned a (t_total ?t)\<rparr>"
  have r3: "clients (snd (add_points_to_client a ?d2 ?cid (t_total ?t))) ?cid = Some ?row1"
    using r2 nn by (rule add_points_to_client_balance)
  have after: "clients d' ?cid = Some (?row1\<lparr>total_spent := total_spent ?row1 + t_total ?t\<rparr>)"
    unfolding d' clients_committed [OF cl] using r3 by (rule update_total_spent_row)
  have credited: "map_option loyalty_points (clients d' ?cid) =
           Some (loyalty_points row + loyalty_points_earned s)"
    using after earned by (simp add: st(6))
  have cancel: "fst (cancel_sale a2 d' sid) = (True, SaleCancelled) \<and>
            map_option loyalty_points (clients (snd (cancel_sale a2 d' sid)) ?cid) =
              Some (loyalty_points row)"
    if nz: "?cid \<noteq> 0"
  proof (cases "0 < loyalty_points_earned s")
    case True
    let ?d3 = "add_stock_all a2 (sale_number s)
                 (filter (\<lambda>l. medicaments d' (line_medicament_id l) \<noteq> None) (lines s))
                 (snd (sale_cancel d' sid))"
    have "clients ?d3 ?cid = Some (?row1\<lparr>total_spent := total_spent ?row1 + t_total ?t\<rparr>)"
      using after by simp
    from use_client_points_balance [OF this True]
    have "map_option loyalty_points
            (clients (snd (use_client_points ?d3 ?cid (loyalty_points_earned s))) ?cid) =
          Some (loyalty_points row)"
      using nn earned by (simp add: st(6))
    then show ?thesis
      using cancel_sale_completed(1,3) [OF st(1) st(2), of a2] True nz
      by (simp add: st(4) cl)
  next
    case False
    then have "loyalty_points_earned s = 0"
      using earned calculate_points_earned_nonneg [of a "total s"] by simp
    then show ?thesis
      using cancel_sale_completed(1,3) [OF st(1) st(2), of a2] credited
      by (simp add: st(4) cl)
  qed
  show ?thesis using earned credited cancel by blast
qed

theorem commit_credits_recorded_points_witness:
  "fst (validate_sale ex_ambient ex_db ex_cart) = (True, SaleRecorded, Some (1, ex_sale_completed)) \<and>
   cart_client ex_cart = Some ex_client \<and> clients ex_db 1 = Some ex_client \<and>
   loyalty_points ex_client = 600 \<and> loyalty_points_earned ex_sale_completed = 92 \<and>
   total ex_sale_completed = 920 \<and> calculate_points_earned ex_ambient 920 = 92 \<and>
   map_option loyalty_points (clients (fst (snd (validate_sale ex_ambient ex_db ex_cart))) 1) = Some 692 \<and>
   fst (cancel_sale ex_ambient (fst (snd (validate_sale ex_ambient ex_db ex_cart))) 1) =
     (True, SaleCancelled) \<and>
   map_option loyalty_points
     (clients (snd (cancel_sale ex_ambient (fst (snd (validate_sale ex_ambient ex_db ex_cart))) 1)) 1) =
     Some 600"
proof -
  have e: "validate_sale ex_ambient ex_db ex_cart =
      ((True, SaleRecorded, Some (1, ex_sale_completed)),
       fst (snd (validate_sale ex_ambient ex_db ex_cart)),
       snd (snd (validate_sale ex_ambient ex_db ex_cart)))"
    using ex_validate_sale by (simp add: prod_eq_iff)
  have h: "cart_client ex_cart = Some ex_client" "clients ex_db (client_ident ex_client) = Some ex_client"
    "0 \<le> loyalty_points ex_client"
    by (simp_all add: ex_cart_def ex_db_def ex_client_def)
  have v: "client_ident ex_client = 1" "loyalty_points ex_client = 600"
    "loyalty_points_earned ex_sale_completed = 92" "total ex_sale_completed = 920"
    by (simp_all add: ex_client_def ex_sale_completed_def ex_sale_cancelled_def)
  show ?thesis
    using commit_credits_recorded_points [OF e h, of ex_ambient] ex_validate_sale h v
    by simp
qed

section \<open>A failed decrement during commit\<close>


end
